theory Spec2Isabelle
  imports Complex_Main "HOL-Library.Sublist"
begin

section \<open>Matching engine: \<open>computeMatch\<close> and \<open>getTopMatches\<close>\<close>

text \<open>
  The source is \<^verbatim>\<open>src/app/profile/page.tsx\<close>, lines 707 to 730. A job is the
  validated form value \<^verbatim>\<open>JobFormValues\<close>; only the fields that the matching code and
  the submit handler read are kept. The zod enumerations are datatypes.
\<close>

datatype experienceLevel = Entry | Mid | Senior | Expert

datatype locationPreference = Remote | OnSite | Hybrid

text \<open>
  A JavaScript \<^verbatim>\<open>number\<close> that is only ever compared: the finite doubles are rationals,
  and \<^verbatim>\<open>NaN\<close> and the two infinities are kept apart, since \<^verbatim>\<open>parseFloat\<close> can return
  them. Every comparison with \<^verbatim>\<open>NaN\<close> is false.
\<close>

datatype number = NaN | NegInfinity | Finite rat | PosInfinity

fun js_le :: "number \<Rightarrow> number \<Rightarrow> bool" where
  "js_le NaN y = False"
| "js_le x NaN = False"
| "js_le NegInfinity y = True"
| "js_le (Finite a) NegInfinity = False"
| "js_le (Finite a) (Finite b) = (a \<le> b)"
| "js_le (Finite a) PosInfinity = True"
| "js_le PosInfinity PosInfinity = True"
| "js_le PosInfinity y = False"

definition js_ge :: "number \<Rightarrow> number \<Rightarrow> bool" where
  "js_ge x y = js_le y x"

record File =
  name :: string
  size_bytes :: nat

record JobFormValues =
  skills :: "string list"
  experience :: experienceLevel
  budgetMin :: string
  budgetMax :: string
  locationPref :: locationPreference
  attachments :: "File list option"

record ServiceMock =
  title :: string
  description :: string
  skills_svc :: "string list"
  experience_svc :: experienceLevel
  priceMin :: number
  priceMax :: number
  remote :: bool

text \<open>The object \<^verbatim>\<open>{ ...s, score: computeMatch(job, s) }\<close>.\<close>

record ScoredService = ServiceMock +
  score :: int

definition MOCK_SERVICES :: "ServiceMock list" where
  "MOCK_SERVICES =
    [\<lparr>title = ''Solidity Engineer'', description = ''Smart contract development and audits'',
      skills_svc = [''Solidity'', ''Hardhat'', ''Security''], experience_svc = Senior,
      priceMin = Finite 50, priceMax = Finite 100, remote = True\<rparr>,
     \<lparr>title = ''Web3 Frontend Dev'', description = ''Next.js + Wagmi dApp UIs'',
      skills_svc = [''React'', ''Next.js'', ''Wagmi'', ''Viem''], experience_svc = Mid,
      priceMin = Finite 35, priceMax = Finite 70, remote = True\<rparr>,
     \<lparr>title = ''DeFi Strategist'', description = ''Tokenomics and protocol design'',
      skills_svc = [''AI/ML'', ''Design'', ''Security''], experience_svc = Expert,
      priceMin = Finite 80, priceMax = Finite 150, remote = True\<rparr>]"

text \<open>\<^verbatim>\<open>Array.prototype.indexOf\<close>: the first position of the element, \<open>-1\<close> when absent.\<close>

fun indexOf :: "'a list \<Rightarrow> 'a \<Rightarrow> int" where
  "indexOf [] x = - 1"
| "indexOf (y # ys) x =
     (if y = x then 0 else (let i = indexOf ys x in if i < 0 then - 1 else i + 1))"

text \<open>
  \<^verbatim>\<open>Math.round\<close> rounds to the nearest integer, a tie towards \<open>+\<infinity>\<close>. The quotient
  \<^verbatim>\<open>skillOverlap / Math.max(1, job.skills.length) * 60\<close> is taken in the rationals.
\<close>

definition Math_round :: "rat \<Rightarrow> int" where
  "Math_round x = \<lfloor>x + 1 / 2\<rfloor>"

definition skillOverlap :: "JobFormValues \<Rightarrow> ServiceMock \<Rightarrow> nat" where
  "skillOverlap job service =
     length (filter (\<lambda>s. s \<in> set (skills_svc service)) (skills job))"

definition skillScore :: "JobFormValues \<Rightarrow> ServiceMock \<Rightarrow> int" where
  "skillScore job service =
     min 100 (Math_round
       (of_nat (skillOverlap job service) / of_nat (max 1 (length (skills job))) * 60))"

definition expScore :: "JobFormValues \<Rightarrow> ServiceMock \<Rightarrow> int" where
  "expScore job service =
     (if experience job = experience_svc service then 20
      else if indexOf [Entry, Mid, Senior, Expert] (experience job)
              \<le> indexOf [Entry, Mid, Senior, Expert] (experience_svc service)
           then 10 else 5)"

text \<open>
  \<^verbatim>\<open>parseFloat\<close> is the JavaScript builtin; the matching code only compares its results,
  so it is a parameter: any function from strings to numbers.
  \<^verbatim>\<open>job.budgetMin || '0'\<close> replaces the empty string by \<^verbatim>\<open>'0'\<close>.
\<close>

definition orZero :: "string \<Rightarrow> string" where
  "orZero s = (if s = [] then ''0'' else s)"

definition budgetFit :: "(string \<Rightarrow> number) \<Rightarrow> JobFormValues \<Rightarrow> ServiceMock \<Rightarrow> int" where
  "budgetFit parseFloat job service =
     (let bMin = parseFloat (orZero (budgetMin job));
          bMax = parseFloat (orZero (budgetMax job))
      in if js_ge (priceMin service) bMin \<and> js_le (priceMax service) bMax then 15 else 5)"

definition remoteFit :: "JobFormValues \<Rightarrow> ServiceMock \<Rightarrow> int" where
  "remoteFit job service =
     (if locationPref job = Remote then (if remote service then 5 else 0) else 0)"

definition computeMatch :: "(string \<Rightarrow> number) \<Rightarrow> JobFormValues \<Rightarrow> ServiceMock \<Rightarrow> int" where
  "computeMatch parseFloat job service =
     min 100 (skillScore job service + expScore job service
              + budgetFit parseFloat job service + remoteFit job service)"

definition withScore :: "(string \<Rightarrow> number) \<Rightarrow> JobFormValues \<Rightarrow> ServiceMock \<Rightarrow> ScoredService" where
  "withScore parseFloat job s =
     \<lparr>title = title s, description = description s, skills_svc = skills_svc s,
      experience_svc = experience_svc s, priceMin = priceMin s, priceMax = priceMax s,
      remote = remote s, score = computeMatch parseFloat job s\<rparr>"

text \<open>
  \<^verbatim>\<open>.sort((a, b) => b.score - a.score)\<close>: the scores are integers, so the comparator is a
  consistent descending order on \<open>score\<close>, and \<^verbatim>\<open>Array.prototype.sort\<close> is stable. The
  stable sort by the key \<open>- score\<close> is that result.
\<close>

definition sortByScoreDesc :: "ScoredService list \<Rightarrow> ScoredService list" where
  "sortByScoreDesc ms = sort_key (\<lambda>m. - score m) ms"

text \<open>
  The body of \<^verbatim>\<open>getTopMatches\<close> over any catalogue, and \<^verbatim>\<open>getTopMatches\<close> itself,
  which ranks the constant \<^verbatim>\<open>MOCK_SERVICES\<close>.
\<close>

definition topMatchesOf ::
  "(string \<Rightarrow> number) \<Rightarrow> ServiceMock list \<Rightarrow> JobFormValues \<Rightarrow> ScoredService list" where
  "topMatchesOf parseFloat services job =
     take 3 (sortByScoreDesc (map (withScore parseFloat job) services))"

definition getTopMatches :: "(string \<Rightarrow> number) \<Rightarrow> JobFormValues \<Rightarrow> ScoredService list" where
  "getTopMatches parseFloat job = topMatchesOf parseFloat MOCK_SERVICES job"

text \<open>The ordered scale \<open>Entry < Mid < Senior < Expert\<close> of the specification.\<close>

fun levelRank :: "experienceLevel \<Rightarrow> nat" where
  "levelRank Entry = 0"
| "levelRank Mid = 1"
| "levelRank Senior = 2"
| "levelRank Expert = 3"

section \<open>Uploader: \<open>uploadJSONToIPFS\<close> and \<open>uploadFilesToIPFS\<close>\<close>

text \<open>
  The two exported functions of \<^verbatim>\<open>@/lib/ipfs\<close>. A thrown JavaScript \<^verbatim>\<open>Error\<close> is the
  value \<open>Error message\<close>; a rejected promise is the left summand of the result.
\<close>

datatype error = Error string

record ipfs_ref =
  cid :: "string option"
  url :: string

record ProfileFormValues =
  certifications :: "File list option"
  portfolioFiles :: "File list option"
  profilePicture :: "File list option"

text \<open>
  The two documents the pages publish:
  \<^verbatim>\<open>{ profile, certCid, portCid, picCid, createdAt }\<close> and
  \<^verbatim>\<open>{ job: { ...data, createdAt }, attachmentsCid }\<close>.
\<close>

datatype document =
    ProfileDoc ProfileFormValues "string option" "string option" "string option" string
  | JobDoc JobFormValues string "string option"

text \<open>
  A \<^verbatim>\<open>fetch\<close> to \<^verbatim>\<open>https://api.web3.storage/upload\<close>: the bearer token and the body.
\<close>

datatype request = JsonUpload string document | FilesUpload string "File list"

text \<open>
  What the service answers. \<open>Rejected m\<close>: \<^verbatim>\<open>fetch\<close> itself rejects with message \<open>m\<close>.
  \<open>Response ok text json\<close>: \<^verbatim>\<open>res.ok\<close>; the outcome of \<^verbatim>\<open>res.text()\<close>; and the outcome
  of \<^verbatim>\<open>const { cid } = await res.json()\<close>, where \<open>Inl\<close> is a rejection with its message
  and \<open>Inr None\<close> is a body without a \<^verbatim>\<open>cid\<close> property.
\<close>

datatype response =
    Rejected string
  | Response bool "string + string" "string + string option"

text \<open>
  \<open>calls\<close> is a history variable, absent from the source: every invocation of one of the
  two exported functions appends its argument and its outcome, as a recording test double
  would.
\<close>

datatype call =
    FilesCall "File list" "error + ipfs_ref"
  | JsonCall document "error + ipfs_ref"

record world =
  token :: "string option"
  fetch_log :: "request list"
  calls :: "call list"

text \<open>
  The storage service is a parameter: its answer to a request, given the requests it has
  seen before.
\<close>

type_synonym server = "request list \<Rightarrow> request \<Rightarrow> response"

definition fetch :: "server \<Rightarrow> world \<Rightarrow> request \<Rightarrow> response \<times> world" where
  "fetch srv w req = (srv (fetch_log w) req, w\<lparr>fetch_log := fetch_log w @ [req]\<rparr>)"

definition missingToken :: error where
  "missingToken = Error ''Missing Web3.Storage token. Set NEXT_PUBLIC_WEB3_STORAGE_TOKEN.''"

text \<open>
  \<^verbatim>\<open>!token\<close> holds when the variable is undefined (\<open>None\<close>) or the empty string; both
  functions read \<^verbatim>\<open>process.env.NEXT_PUBLIC_WEB3_STORAGE_TOKEN\<close> in their first line.
\<close>

definition noToken :: "string option \<Rightarrow> bool" where
  "noToken t = (case t of None \<Rightarrow> True | Some s \<Rightarrow> s = [])"

text \<open>Lines 15 to 21 and, word for word, 40 to 46.\<close>

definition readResponse :: "response \<Rightarrow> error + ipfs_ref" where
  "readResponse res =
     (case res of
        Rejected m \<Rightarrow> Inl (Error m)
      | Response ok text json \<Rightarrow>
          if \<not> ok then
            (case text of
               Inl m \<Rightarrow> Inl (Error m)
             | Inr t \<Rightarrow> Inl (Error (''IPFS upload failed: '' @ t)))
          else
            (case json of
               Inl m \<Rightarrow> Inl (Error m)
             | Inr c \<Rightarrow>
                 Inr \<lparr>cid = c,
                      url = ''https://w3s.link/ipfs/''
                            @ (case c of None \<Rightarrow> ''undefined'' | Some s \<Rightarrow> s)\<rparr>))"

definition uploadJSONToIPFS :: "server \<Rightarrow> world \<Rightarrow> document \<Rightarrow> (error + ipfs_ref) \<times> world" where
  "uploadJSONToIPFS srv w data =
     (let (r, w') =
        (case token w of
           None \<Rightarrow> (Inl missingToken, w)
         | Some t \<Rightarrow>
             if t = [] then (Inl missingToken, w)
             else (let (res, w1) = fetch srv w (JsonUpload t data)
                   in (readResponse res, w1)))
      in (r, w'\<lparr>calls := calls w' @ [JsonCall data r]\<rparr>))"

definition uploadFilesToIPFS :: "server \<Rightarrow> world \<Rightarrow> File list \<Rightarrow> (error + ipfs_ref) \<times> world" where
  "uploadFilesToIPFS srv w files =
     (let (r, w') =
        (case token w of
           None \<Rightarrow> (Inl missingToken, w)
         | Some t \<Rightarrow>
             if t = [] then (Inl missingToken, w)
             else (let (res, w1) = fetch srv w (FilesUpload t files)
                   in (readResponse res, w1)))
      in (r, w'\<lparr>calls := calls w' @ [FilesCall files r]\<rparr>))"

section \<open>Submit handlers: \<open>onSubmit\<close> of \<open>ProfilePage\<close> and of \<open>PostJobPage\<close>\<close>

text \<open>
  The React state a handler writes, and the messages passed to \<^verbatim>\<open>alert\<close>, oldest first.
  The draft store (\<^verbatim>\<open>localStorage\<close>) and the form library's \<^verbatim>\<open>reset\<close> are left out: the
  handlers write them only after the last upload has succeeded and never read them.
\<close>

record page =
  attErr :: "string option"
  ipfsUrl :: "string option"
  isSuccess :: bool
  alerts :: "string list"

record job_page = page +
  lastJob :: "JobFormValues option"

text \<open>\<^verbatim>\<open>(data.x as FileList) || {}\<close> with \<^verbatim>\<open>list?.length || 0\<close>: an absent list has no items.\<close>

definition fileList :: "File list option \<Rightarrow> File list" where
  "fileList x = (case x of None \<Rightarrow> [] | Some fs \<Rightarrow> fs)"

definition checkSize :: "File \<Rightarrow> nat \<Rightarrow> bool" where
  "checkSize f maxMB = (size_bytes f \<le> maxMB * 1024 * 1024)"

text \<open>
  The loop \<^verbatim>\<open>for (i = 0; i < list.length; i++)\<close>: each item is checked and pushed; the
  first item that fails the check ends the handler (\<open>None\<close>).
\<close>

fun pushChecked :: "(File \<Rightarrow> bool) \<Rightarrow> File list \<Rightarrow> File list \<Rightarrow> File list option" where
  "pushChecked ok acc [] = Some acc"
| "pushChecked ok acc (f # fs) =
     (if \<not> ok f then None else pushChecked ok (acc @ [f]) fs)"

text \<open>\<^verbatim>\<open>if (picList?.length) { const f = picList.item(0)!; ... }\<close>: only the first item.\<close>

definition checkPicture :: "File list \<Rightarrow> File list option" where
  "checkPicture picList =
     (case picList of
        [] \<Rightarrow> Some []
      | f # rest \<Rightarrow> if \<not> checkSize f 5 then None else Some [f])"

text \<open>Lines 81 to 102: the message for \<^verbatim>\<open>setAttErr\<close>, or the three arrays.\<close>

definition validateProfile ::
  "ProfileFormValues \<Rightarrow> string + File list \<times> File list \<times> File list" where
  "validateProfile data =
     (case pushChecked (\<lambda>f. checkSize f 5) [] (fileList (certifications data)) of
        None \<Rightarrow> Inl ''Certification exceeds 5MB''
      | Some certFiles \<Rightarrow>
     (case pushChecked (\<lambda>f. checkSize f 5) [] (fileList (portfolioFiles data)) of
        None \<Rightarrow> Inl ''Portfolio file exceeds 5MB''
      | Some pfFiles \<Rightarrow>
     (case checkPicture (fileList (profilePicture data)) of
        None \<Rightarrow> Inl ''Profile picture exceeds 5MB''
      | Some profilePic \<Rightarrow> Inr (certFiles, pfFiles, profilePic))))"

text \<open>\<^verbatim>\<open>cond ? await uploadFilesToIPFS(batch) : null\<close>.\<close>

definition uploadWhen ::
  "bool \<Rightarrow> server \<Rightarrow> world \<Rightarrow> File list \<Rightarrow> (error + ipfs_ref option) \<times> world" where
  "uploadWhen cond srv w batch =
     (if cond then
        (case uploadFilesToIPFS srv w batch of
           (Inl e, w') \<Rightarrow> (Inl e, w')
         | (Inr r, w') \<Rightarrow> (Inr (Some r), w'))
      else (Inr None, w))"

text \<open>\<^verbatim>\<open>ref?.cid ?? null\<close>.\<close>

definition cidOf :: "ipfs_ref option \<Rightarrow> string option" where
  "cidOf r = (case r of None \<Rightarrow> None | Some x \<Rightarrow> cid x)"

text \<open>
  Lines 104 to 108, the awaits of the \<^verbatim>\<open>try\<close> block in their order; \<open>now\<close> is
  \<^verbatim>\<open>new Date().toISOString()\<close>. A rejected await leaves the block at once.
\<close>

definition publishProfile ::
  "server \<Rightarrow> string \<Rightarrow> world \<Rightarrow> ProfileFormValues \<Rightarrow> File list \<Rightarrow> File list \<Rightarrow> File list
     \<Rightarrow> (error + ipfs_ref) \<times> world" where
  "publishProfile srv now w data certFiles pfFiles profilePic =
     (case uploadWhen (certFiles \<noteq> []) srv w certFiles of
        (Inl e, w1) \<Rightarrow> (Inl e, w1)
      | (Inr certCid, w1) \<Rightarrow>
     (case uploadWhen (pfFiles \<noteq> []) srv w1 (take 10 pfFiles) of
        (Inl e, w2) \<Rightarrow> (Inl e, w2)
      | (Inr portCid, w2) \<Rightarrow>
     (case uploadWhen (profilePic \<noteq> []) srv w2 profilePic of
        (Inl e, w3) \<Rightarrow> (Inl e, w3)
      | (Inr picCid, w3) \<Rightarrow>
          uploadJSONToIPFS srv w3
            (ProfileDoc data (cidOf certCid) (cidOf portCid) (cidOf picCid) now))))"

text \<open>\<^verbatim>\<open>alert(e.message || fallback)\<close>.\<close>

definition alertText :: "error \<Rightarrow> string \<Rightarrow> string" where
  "alertText e fallback = (case e of Error m \<Rightarrow> if m = [] then fallback else m)"

definition onSubmit ::
  "server \<Rightarrow> string \<Rightarrow> page \<Rightarrow> world \<Rightarrow> ProfileFormValues \<Rightarrow> page \<times> world" where
  "onSubmit srv now p0 w data =
     (let p = p0\<lparr>attErr := None\<rparr> in
      case validateProfile data of
        Inl msg \<Rightarrow> (p\<lparr>attErr := Some msg\<rparr>, w)
      | Inr (certFiles, pfFiles, profilePic) \<Rightarrow>
          (case publishProfile srv now w data certFiles pfFiles profilePic of
             (Inl e, w') \<Rightarrow>
               (p\<lparr>alerts := alerts p @ [alertText e ''Failed to publish profile'']\<rparr>, w')
           | (Inr json, w') \<Rightarrow> (p\<lparr>ipfsUrl := Some (url json), isSuccess := True\<rparr>, w')))"

text \<open>\<open>PostJobPage\<close>, lines 440 to 470.\<close>

definition validateJob :: "JobFormValues \<Rightarrow> string + File list" where
  "validateJob data =
     (case pushChecked (\<lambda>f. \<not> size_bytes f > 10 * 1024 * 1024) [] (fileList (attachments data)) of
        None \<Rightarrow> Inl ''Attachment exceeds 10MB limit''
      | Some files \<Rightarrow> Inr files)"

definition publishJob ::
  "server \<Rightarrow> string \<Rightarrow> world \<Rightarrow> JobFormValues \<Rightarrow> File list \<Rightarrow> (error + ipfs_ref) \<times> world" where
  "publishJob srv now w data files =
     (case uploadWhen (length files > 0) srv w files of
        (Inl e, w1) \<Rightarrow> (Inl e, w1)
      | (Inr uploaded, w1) \<Rightarrow> uploadJSONToIPFS srv w1 (JobDoc data now (cidOf uploaded)))"

definition onSubmit_job ::
  "server \<Rightarrow> string \<Rightarrow> job_page \<Rightarrow> world \<Rightarrow> JobFormValues \<Rightarrow> job_page \<times> world" where
  "onSubmit_job srv now p0 w data =
     (let p = p0\<lparr>attErr := None\<rparr> in
      case validateJob data of
        Inl msg \<Rightarrow> (p\<lparr>attErr := Some msg\<rparr>, w)
      | Inr files \<Rightarrow>
          (case publishJob srv now w data files of
             (Inl e, w') \<Rightarrow>
               (p\<lparr>alerts := alerts p @ [alertText e ''Failed to publish job'']\<rparr>, w')
           | (Inr json, w') \<Rightarrow>
               (p\<lparr>ipfsUrl := Some (url json), lastJob := Some data, isSuccess := True\<rparr>, w')))"

section \<open>Observing a run\<close>

text \<open>
  What a run from world \<open>w\<close> to world \<open>w'\<close> added to the two logs, and the kinds of entries.
\<close>

definition newCalls :: "world \<Rightarrow> world \<Rightarrow> call list" where
  "newCalls w w' = drop (length (calls w)) (calls w')"

definition newRequests :: "world \<Rightarrow> world \<Rightarrow> request list" where
  "newRequests w w' = drop (length (fetch_log w)) (fetch_log w')"

definition extends :: "world \<Rightarrow> world \<Rightarrow> bool" where
  "extends w w' = (prefix (calls w) (calls w') \<and> prefix (fetch_log w) (fetch_log w'))"

fun failedBatch :: "call \<Rightarrow> bool" where
  "failedBatch (FilesCall fs r) = isl r"
| "failedBatch (JsonCall d r) = False"

fun okBatch :: "call \<Rightarrow> bool" where
  "okBatch (FilesCall fs r) = (\<not> isl r)"
| "okBatch (JsonCall d r) = False"

fun isJsonCall :: "call \<Rightarrow> bool" where
  "isJsonCall (FilesCall fs r) = False"
| "isJsonCall (JsonCall d r) = True"

fun isJsonUpload :: "request \<Rightarrow> bool" where
  "isJsonUpload (JsonUpload t d) = True"
| "isJsonUpload (FilesUpload t fs) = False"

text \<open>The batch a call uploaded, if it was a batch upload.\<close>

fun batchOf :: "call \<Rightarrow> File list option" where
  "batchOf (FilesCall fs r) = Some fs"
| "batchOf (JsonCall d r) = None"

section \<open>Sample inputs\<close>

text \<open>Concrete jobs, candidates, files, pages, worlds and services for the examples below.\<close>

definition sampleJob :: "string list \<Rightarrow> experienceLevel \<Rightarrow> JobFormValues" where
  "sampleJob sk lvl =
     \<lparr>skills = sk, experience = lvl, budgetMin = ''50'', budgetMax = ''100'',
      locationPref = Remote, attachments = None\<rparr>"

definition sampleService :: "string list \<Rightarrow> experienceLevel \<Rightarrow> ServiceMock" where
  "sampleService sk lvl =
     \<lparr>title = ''Candidate'', description = ''Sample'', skills_svc = sk, experience_svc = lvl,
      priceMin = Finite 50, priceMax = Finite 100, remote = True\<rparr>"

definition acceptingServer :: server where
  "acceptingServer seen req = Response True (Inr []) (Inr (Some ''bafy''))"

definition rejectingServer :: server where
  "rejectingServer seen req = Response False (Inr ''quota exceeded'') (Inl ''Unexpected token'')"

definition acceptFirstOnly :: server where
  "acceptFirstOnly seen req =
     (if seen = [] then acceptingServer seen req else rejectingServer seen req)"

definition startWorld :: "string option \<Rightarrow> world" where
  "startWorld t = \<lparr>token = t, fetch_log = [], calls = []\<rparr>"

definition freshPage :: page where
  "freshPage = \<lparr>attErr = None, ipfsUrl = None, isSuccess = False, alerts = []\<rparr>"

definition freshJobPage :: job_page where
  "freshJobPage =
     \<lparr>attErr = None, ipfsUrl = None, isSuccess = False, alerts = [], lastJob = None\<rparr>"

definition sampleFile :: "string \<Rightarrow> nat \<Rightarrow> File" where
  "sampleFile n b = \<lparr>name = n, size_bytes = b\<rparr>"

definition sampleProfile :: "File list \<Rightarrow> File list \<Rightarrow> File list \<Rightarrow> ProfileFormValues" where
  "sampleProfile certs pfs pics =
     \<lparr>certifications = Some certs, portfolioFiles = Some pfs, profilePicture = Some pics\<rparr>"

definition sampleJobWith :: "File list \<Rightarrow> JobFormValues" where
  "sampleJobWith fs = (sampleJob [''Solidity''] Senior)\<lparr>attachments := Some fs\<rparr>"

definition elevenFiles :: "File list" where
  "elevenFiles =
     [sampleFile ''p01.png'' 1, sampleFile ''p02.png'' 1, sampleFile ''p03.png'' 1,
      sampleFile ''p04.png'' 1, sampleFile ''p05.png'' 1, sampleFile ''p06.png'' 1,
      sampleFile ''p07.png'' 1, sampleFile ''p08.png'' 1, sampleFile ''p09.png'' 1,
      sampleFile ''p10.png'' 1, sampleFile ''p11.png'' 1]"

definition twelveFiles :: "File list" where
  "twelveFiles = sampleFile ''p00.png'' 2 # elevenFiles"

lemmas sample_defs = acceptingServer_def rejectingServer_def acceptFirstOnly_def startWorld_def
  freshPage_def freshJobPage_def sampleFile_def sampleProfile_def sampleJobWith_def sampleJob_def
  sampleService_def

lemmas run_defs = onSubmit_def onSubmit_job_def validateProfile_def validateJob_def
  publishProfile_def publishJob_def uploadWhen_def uploadFilesToIPFS_def uploadJSONToIPFS_def
  fetch_def readResponse_def checkPicture_def checkSize_def fileList_def cidOf_def alertText_def
  missingToken_def newCalls_def newRequests_def Let_def

section \<open>Properties of the matching engine\<close>

lemma skillOverlap_le: "skillOverlap job service \<le> length (skills job)"
  by (simp add: skillOverlap_def)

lemma Math_round_mono: "x \<le> y \<Longrightarrow> Math_round x \<le> Math_round y"
  by (simp add: Math_round_def floor_mono)

lemma skill_ratio_bounds:
  "0 \<le> (of_nat (skillOverlap job service) / of_nat (max 1 (length (skills job))) * 60 :: rat)"
  "(of_nat (skillOverlap job service) / of_nat (max 1 (length (skills job))) * 60 :: rat) \<le> 60"
proof -
  define k where "k = skillOverlap job service"
  define n where "n = max 1 (length (skills job))"
  define q :: rat where "q = of_nat k / of_nat n"
  have n: "0 < n" by (simp add: n_def)
  have le: "k \<le> n" using skillOverlap_le [of job service] by (simp add: k_def n_def)
  have q1: "q \<le> 1" using n le by (simp add: q_def divide_le_eq_1)
  have q0: "0 \<le> q" by (simp add: q_def)
  have "q * 60 \<le> 60" using q1 by simp
  then show "(of_nat (skillOverlap job service) / of_nat (max 1 (length (skills job))) * 60 :: rat) \<le> 60"
    by (simp only: q_def k_def n_def)
  have "0 \<le> q * 60" using q0 by simp
  then show "0 \<le> (of_nat (skillOverlap job service) / of_nat (max 1 (length (skills job))) * 60 :: rat)"
    by (simp only: q_def k_def n_def)
qed

lemma Math_round_60: "Math_round 60 = 60" "Math_round 0 = 0"
  unfolding Math_round_def by (rule floor_unique; simp)+

lemma skillScore_bounds: "0 \<le> skillScore job service" "skillScore job service \<le> 60"
proof -
  let ?q = "(of_nat (skillOverlap job service) / of_nat (max 1 (length (skills job))) * 60 :: rat)"
  have "Math_round 0 \<le> Math_round ?q" by (rule Math_round_mono) (rule skill_ratio_bounds)
  then show "0 \<le> skillScore job service" by (simp add: skillScore_def Math_round_60)
  have "Math_round ?q \<le> Math_round 60" by (rule Math_round_mono) (rule skill_ratio_bounds)
  then show "skillScore job service \<le> 60" by (simp add: skillScore_def Math_round_60)
qed

lemma expScore_cases: "expScore job service \<in> {5, 10, 20}"
  by (simp add: expScore_def)

lemma budgetFit_cases: "budgetFit pf job service \<in> {5, 15}"
  by (simp add: budgetFit_def Let_def)

lemma remoteFit_cases: "remoteFit job service \<in> {0, 5}"
  by (simp add: remoteFit_def)

lemma Math_round_of_int: "Math_round (of_int n) = n"
  unfolding Math_round_def by (rule floor_unique) simp_all

lemma Math_round_numeral: "Math_round (numeral k) = numeral k"
  using Math_round_of_int [of "numeral k"] by simp

lemma overlap_card:
  "distinct xs \<Longrightarrow> length (filter (\<lambda>s. s \<in> set ys) xs) = card (set xs \<inter> set ys)"
proof -
  assume d: "distinct xs"
  have "set (filter (\<lambda>s. s \<in> set ys) xs) = set xs \<inter> set ys" by auto
  moreover have "distinct (filter (\<lambda>s. s \<in> set ys) xs)" using d by simp
  ultimately show ?thesis by (metis distinct_card)
qed

lemma sorted_desc_scores:
  "sorted_wrt (\<lambda>a b. b \<le> a) (map score (sortByScoreDesc ms))"
proof -
  have "sorted (map (\<lambda>m. - score m) (sortByScoreDesc ms))"
    unfolding sortByScoreDesc_def by (rule sorted_sort_key)
  then show ?thesis by (simp add: sorted_map sorted_wrt_map)
qed

lemma filter_take_prefix: "prefix (filter P (take n xs)) (filter P xs)"
proof -
  have "filter P xs = filter P (take n xs) @ filter P (drop n xs)"
    by (simp flip: filter_append)
  then show ?thesis by (rule prefixI)
qed

lemma sortByScoreDesc_stable:
  "filter (\<lambda>m. score m = k) (sortByScoreDesc ms) = filter (\<lambda>m. score m = k) ms"
  using sort_key_stable [of "\<lambda>m. - score m" "- k" ms] by (simp add: sortByScoreDesc_def)

text \<open>
  Claim C1, as the code has it. The direction of the claim is the reverse of the code's:
  when the two levels differ, the experience component is 10 if the candidate's level is
  above the required level on the scale \<open>Entry < Mid < Senior < Expert\<close>, and 5 if it is
  below; it is 20 when the levels are equal.
\<close>

theorem expScore_scale:
  "expScore job service =
     (if experience_svc service = experience job then 20
      else if levelRank (experience job) < levelRank (experience_svc service) then 10
      else 5)"
  by (cases "experience job"; cases "experience_svc service") (simp_all add: expScore_def)

text \<open>
  Claim C1 as stated fails: a candidate at \<open>Entry\<close> for a job that requires \<open>Mid\<close> is below
  the required level and scores 5, not 10; a candidate at \<open>Expert\<close> for the same job is
  above it and scores 10, not 5.
\<close>

theorem expScore_counterexample:
  "experience (sampleJob [] Mid) \<noteq> experience_svc (sampleService [] Entry)
   \<and> levelRank (experience_svc (sampleService [] Entry)) \<le> levelRank (experience (sampleJob [] Mid))
   \<and> expScore (sampleJob [] Mid) (sampleService [] Entry) = 5
   \<and> experience (sampleJob [] Mid) \<noteq> experience_svc (sampleService [] Expert)
   \<and> \<not> levelRank (experience_svc (sampleService [] Expert)) \<le> levelRank (experience (sampleJob [] Mid))
   \<and> expScore (sampleJob [] Mid) (sampleService [] Expert) = 10"
  by (simp add: sampleJob_def sampleService_def expScore_def)

text \<open>
  Claim C7: the total returned by \<open>computeMatch\<close> is the four components' sum capped at
  100, and it lies between 0 and 100 for every job and candidate, an empty skill list on
  either side included.
\<close>

theorem computeMatch_total_range:
  "computeMatch parseFloat job service =
     min 100 (skillScore job service + expScore job service
              + budgetFit parseFloat job service + remoteFit job service)
   \<and> 0 \<le> computeMatch parseFloat job service
   \<and> computeMatch parseFloat job service \<le> 100"
  using skillScore_bounds [of job service] expScore_cases [of job service]
    budgetFit_cases [of parseFloat job service] remoteFit_cases [of job service]
  by (auto simp add: computeMatch_def)

text \<open>
  Claim C10: the experience component and the budget component are each at least 5, and
  the total is at least 10 for every job and candidate.
\<close>

theorem computeMatch_at_least_10:
  "5 \<le> expScore job service \<and> 5 \<le> budgetFit parseFloat job service
   \<and> 10 \<le> computeMatch parseFloat job service"
  using skillScore_bounds [of job service] expScore_cases [of job service]
    budgetFit_cases [of parseFloat job service] remoteFit_cases [of job service]
  by (auto simp add: computeMatch_def)

text \<open>
  Claim C8: the skill component is the rounded share of the required skills that the
  candidate has, times 60; it never exceeds 60 and is 0 when the job lists no skill. The
  code counts the entries of \<open>job.skills\<close> that occur in \<open>service.skills\<close>; when the
  required skills are a set (no entry twice) this is the size of the intersection.
\<close>

theorem skillScore_formula:
  "skillScore job service =
     Math_round (of_nat (length (filter (\<lambda>s. s \<in> set (skills_svc service)) (skills job)))
                 / of_nat (max 1 (length (skills job))) * 60)
   \<and> skillScore job service \<le> 60
   \<and> (skills job = [] \<longrightarrow> skillScore job service = 0)
   \<and> (distinct (skills job) \<longrightarrow>
        skillScore job service =
          Math_round (of_nat (card (set (skills job) \<inter> set (skills_svc service)))
                      / of_nat (max 1 (card (set (skills job)))) * 60))"
proof -
  let ?q = "(of_nat (skillOverlap job service) / of_nat (max 1 (length (skills job))) * 60 :: rat)"
  have "Math_round ?q \<le> Math_round 60" by (rule Math_round_mono) (rule skill_ratio_bounds)
  then have le60: "Math_round ?q \<le> 60" by (simp only: Math_round_60)
  then have eq: "skillScore job service = Math_round ?q" by (simp add: skillScore_def)
  have a: "skillScore job service =
     Math_round (of_nat (length (filter (\<lambda>s. s \<in> set (skills_svc service)) (skills job)))
                 / of_nat (max 1 (length (skills job))) * 60)"
    using eq by (simp only: skillOverlap_def)
  have b: "skillScore job service \<le> 60" using eq le60 by simp
  have c: "skills job = [] \<longrightarrow> skillScore job service = 0"
    by (simp add: skillScore_def skillOverlap_def Math_round_60)
  have d: "distinct (skills job) \<longrightarrow>
        skillScore job service =
          Math_round (of_nat (card (set (skills job) \<inter> set (skills_svc service)))
                      / of_nat (max 1 (card (set (skills job)))) * 60)"
  proof
    assume dist: "distinct (skills job)"
    show "skillScore job service =
          Math_round (of_nat (card (set (skills job) \<inter> set (skills_svc service)))
                      / of_nat (max 1 (card (set (skills job)))) * 60)"
      using a by (simp only: overlap_card [OF dist] distinct_card [OF dist])
  qed
  from a b c d show ?thesis by blast
qed

theorem skillScore_formula_witness:
  "skills (sampleJob [] Senior) = []
   \<and> skillScore (sampleJob [] Senior) (sampleService [''A''] Senior) = 0
   \<and> distinct (skills (sampleJob [''A'', ''B'', ''D''] Senior))
   \<and> card (set (skills (sampleJob [''A'', ''B'', ''D''] Senior))
            \<inter> set (skills_svc (sampleService [''A'', ''B'', ''C''] Senior))) = 2
   \<and> skillScore (sampleJob [''A'', ''B'', ''D''] Senior) (sampleService [''A'', ''B'', ''C''] Senior) = 40"
  using skillScore_formula [of "sampleJob [] Senior" "sampleService [''A''] Senior"]
    skillScore_formula [of "sampleJob [''A'', ''B'', ''D''] Senior" "sampleService [''A'', ''B'', ''C''] Senior"]
  by (simp add: sampleJob_def sampleService_def Math_round_numeral Math_round_60)

text \<open>
  Claim C6: for every job and every candidate list, the ranked sequence has its scores in
  non-increasing order; the entries of any one score \<open>k\<close> are an initial segment of the
  input's entries of that score, in the input's order; and there are at most 3 entries.
  \<open>getTopMatches\<close> is this ranking of \<open>MOCK_SERVICES\<close>.
\<close>

theorem topMatchesOf_ranked:
  "sorted_wrt (\<lambda>a b. b \<le> a) (map score (topMatchesOf parseFloat services job))
   \<and> prefix (filter (\<lambda>m. score m = k) (topMatchesOf parseFloat services job))
             (filter (\<lambda>m. score m = k) (map (withScore parseFloat job) services))
   \<and> length (topMatchesOf parseFloat services job) \<le> 3
   \<and> getTopMatches parseFloat job = topMatchesOf parseFloat MOCK_SERVICES job"
proof -
  let ?ms = "map (withScore parseFloat job) services"
  have "sorted_wrt (\<lambda>a b. b \<le> a) (take 3 (map score (sortByScoreDesc ?ms)))"
    using sorted_desc_scores [of ?ms] by (rule sorted_wrt_take)
  then have a: "sorted_wrt (\<lambda>a b. b \<le> a) (map score (topMatchesOf parseFloat services job))"
    by (simp add: topMatchesOf_def take_map)
  have "prefix (filter (\<lambda>m. score m = k) (take 3 (sortByScoreDesc ?ms)))
               (filter (\<lambda>m. score m = k) (sortByScoreDesc ?ms))"
    by (rule filter_take_prefix)
  then have b: "prefix (filter (\<lambda>m. score m = k) (topMatchesOf parseFloat services job))
             (filter (\<lambda>m. score m = k) ?ms)"
    by (simp only: topMatchesOf_def sortByScoreDesc_stable)
  have c: "length (topMatchesOf parseFloat services job) \<le> 3"
    by (simp add: topMatchesOf_def)
  show ?thesis using a b c by (simp add: getTopMatches_def)
qed

section \<open>Properties of the submit handlers\<close>

lemma pushChecked_Some:
  "pushChecked ok acc fs = Some r \<longleftrightarrow> (\<forall>f\<in>set fs. ok f) \<and> r = acc @ fs"
  by (induction fs arbitrary: acc) auto

lemma pushChecked_None:
  "pushChecked ok acc fs = None \<longleftrightarrow> (\<exists>f\<in>set fs. \<not> ok f)"
  by (induction fs arbitrary: acc) auto

lemma checkPicture_Some:
  "checkPicture fs = Some r \<longleftrightarrow> (case fs of [] \<Rightarrow> True | f # rest \<Rightarrow> checkSize f 5) \<and> r = take 1 fs"
  by (auto simp: checkPicture_def split: list.splits)

lemma checkPicture_None:
  "checkPicture fs = None \<longleftrightarrow> (case fs of [] \<Rightarrow> False | f # rest \<Rightarrow> \<not> checkSize f 5)"
  by (auto simp: checkPicture_def split: list.splits)

lemma validateProfile_Inr:
  "validateProfile data = Inr v \<longleftrightarrow>
     (\<forall>f\<in>set (fileList (certifications data)). checkSize f 5)
     \<and> (\<forall>f\<in>set (fileList (portfolioFiles data)). checkSize f 5)
     \<and> (case fileList (profilePicture data) of [] \<Rightarrow> True | f # rest \<Rightarrow> checkSize f 5)
     \<and> v = (fileList (certifications data), fileList (portfolioFiles data),
            take 1 (fileList (profilePicture data)))"
  unfolding validateProfile_def
  by (auto simp: pushChecked_Some pushChecked_None checkPicture_Some checkPicture_None
      split: option.splits list.splits)

lemma validateProfile_Inl:
  "(\<exists>m. validateProfile data = Inl m) \<longleftrightarrow>
     (\<exists>f\<in>set (fileList (certifications data)). \<not> checkSize f 5)
     \<or> (\<exists>f\<in>set (fileList (portfolioFiles data)). \<not> checkSize f 5)
     \<or> (case fileList (profilePicture data) of [] \<Rightarrow> False | f # rest \<Rightarrow> \<not> checkSize f 5)"
  unfolding validateProfile_def
  by (auto simp: pushChecked_Some pushChecked_None checkPicture_Some checkPicture_None
      split: option.splits list.splits)

lemma validateJob_Inr:
  "validateJob data = Inr v \<longleftrightarrow>
     (\<forall>f\<in>set (fileList (attachments data)). size_bytes f \<le> 10 * 1024 * 1024)
     \<and> v = fileList (attachments data)"
  unfolding validateJob_def
  by (auto simp: pushChecked_Some pushChecked_None not_less split: option.splits)

lemma validateJob_Inl:
  "(\<exists>m. validateJob data = Inl m) \<longleftrightarrow>
     (\<exists>f\<in>set (fileList (attachments data)). size_bytes f > 10 * 1024 * 1024)"
  unfolding validateJob_def
  by (auto simp: pushChecked_Some pushChecked_None split: option.splits)

lemma extends_refl: "extends w w"
  by (simp add: extends_def)

lemma newCalls_same: "newCalls w w = []" "newRequests w w = []"
  by (simp_all add: newCalls_def newRequests_def)

lemma extends_trans:
  assumes "extends w w1" "extends w1 w2"
  shows "extends w w2"
    and "newCalls w w2 = newCalls w w1 @ newCalls w1 w2"
    and "newRequests w w2 = newRequests w w1 @ newRequests w1 w2"
proof -
  from assms obtain cs rs cs' rs' where
    a: "calls w1 = calls w @ cs" "fetch_log w1 = fetch_log w @ rs"
    and b: "calls w2 = calls w1 @ cs'" "fetch_log w2 = fetch_log w1 @ rs'"
    unfolding extends_def prefix_def by blast
  show "extends w w2" using a b by (simp add: extends_def)
  show "newCalls w w2 = newCalls w w1 @ newCalls w1 w2" using a b by (simp add: newCalls_def)
  show "newRequests w w2 = newRequests w w1 @ newRequests w1 w2"
    using a b by (simp add: newRequests_def)
qed

lemma uploadFilesToIPFS_trace:
  assumes "uploadFilesToIPFS srv w files = (r, w')"
  shows "extends w w'" and "newCalls w w' = [FilesCall files r]"
    and "list_all (\<lambda>q. \<not> isJsonUpload q) (newRequests w w')"
  using assms
  by (auto simp: uploadFilesToIPFS_def fetch_def extends_def newCalls_def newRequests_def
      split: option.splits if_splits)

lemma uploadJSONToIPFS_trace:
  assumes "uploadJSONToIPFS srv w d = (r, w')"
  shows "extends w w'" and "newCalls w w' = [JsonCall d r]"
  using assms
  by (auto simp: uploadJSONToIPFS_def fetch_def extends_def newCalls_def newRequests_def
      split: option.splits if_splits)

lemma uploadWhen_trace:
  assumes "uploadWhen c srv w b = (r, w')"
  shows "extends w w'"
    and "list_all (\<lambda>q. \<not> isJsonUpload q) (newRequests w w')"
    and "(case r of Inl e \<Rightarrow> newCalls w w' = [FilesCall b (Inl e)]
          | Inr x \<Rightarrow> list_all okBatch (newCalls w w'))"
    and "list_all (\<lambda>c. batchOf c = Some b) (newCalls w w')"
proof -
  show "extends w w'" using assms uploadFilesToIPFS_trace(1) [of srv w b]
    by (auto simp: uploadWhen_def extends_refl split: if_splits prod.splits sum.splits)
  show "list_all (\<lambda>q. \<not> isJsonUpload q) (newRequests w w')"
    using assms uploadFilesToIPFS_trace(3) [of srv w b]
    by (auto simp: uploadWhen_def newCalls_same split: if_splits prod.splits sum.splits)
  show "(case r of Inl e \<Rightarrow> newCalls w w' = [FilesCall b (Inl e)]
          | Inr x \<Rightarrow> list_all okBatch (newCalls w w'))"
    using assms uploadFilesToIPFS_trace(2) [of srv w b]
    by (auto simp: uploadWhen_def newCalls_same split: if_splits prod.splits sum.splits)
  show "list_all (\<lambda>c. batchOf c = Some b) (newCalls w w')"
    using assms uploadFilesToIPFS_trace(2) [of srv w b]
    by (auto simp: uploadWhen_def newCalls_same split: if_splits prod.splits sum.splits)
qed

lemma okBatch_not: "okBatch c \<Longrightarrow> \<not> failedBatch c \<and> \<not> isJsonCall c"
  by (cases c) simp_all

lemma list_all_okBatch:
  "list_all okBatch cs \<Longrightarrow> list_all (\<lambda>c. \<not> failedBatch c) cs \<and> list_all (\<lambda>c. \<not> isJsonCall c) cs"
  by (induction cs) (auto dest: okBatch_not)

lemma publishProfile_cases:
  assumes "publishProfile srv now w data cf pf pic = (r, w')"
  obtains
    (fail1) e where "uploadWhen (cf \<noteq> []) srv w cf = (Inl e, w')" "r = Inl e"
  | (fail2) x1 w1 e where "uploadWhen (cf \<noteq> []) srv w cf = (Inr x1, w1)"
      "uploadWhen (pf \<noteq> []) srv w1 (take 10 pf) = (Inl e, w')" "r = Inl e"
  | (fail3) x1 w1 x2 w2 e where "uploadWhen (cf \<noteq> []) srv w cf = (Inr x1, w1)"
      "uploadWhen (pf \<noteq> []) srv w1 (take 10 pf) = (Inr x2, w2)"
      "uploadWhen (pic \<noteq> []) srv w2 pic = (Inl e, w')" "r = Inl e"
  | (json) x1 w1 x2 w2 x3 w3 where "uploadWhen (cf \<noteq> []) srv w cf = (Inr x1, w1)"
      "uploadWhen (pf \<noteq> []) srv w1 (take 10 pf) = (Inr x2, w2)"
      "uploadWhen (pic \<noteq> []) srv w2 pic = (Inr x3, w3)"
      "uploadJSONToIPFS srv w3 (ProfileDoc data (cidOf x1) (cidOf x2) (cidOf x3) now) = (r, w')"
  using assms unfolding publishProfile_def
  by (auto split: prod.splits sum.splits)

lemma publishProfile_abort:
  assumes run: "publishProfile srv now w data cf pf pic = (r, w')"
    and fail: "\<exists>c\<in>set (newCalls w w'). failedBatch c"
  shows "list_all (\<lambda>c. \<not> isJsonCall c) (newCalls w w')
         \<and> list_all (\<lambda>q. \<not> isJsonUpload q) (newRequests w w')
         \<and> (\<exists>fs e. last (newCalls w w') = FilesCall fs (Inl e) \<and> r = Inl e)"
using run proof (cases rule: publishProfile_cases)
  case (fail1 e)
  from uploadWhen_trace [OF fail1(1)] fail1(2) show ?thesis by simp
next
  case (fail2 x1 w1 e)
  note t1 = uploadWhen_trace [OF fail2(1)] and t2 = uploadWhen_trace [OF fail2(2)]
  note tr = extends_trans [OF t1(1) t2(1)]
  from t1 t2 tr fail2(3) show ?thesis by (auto dest: list_all_okBatch)
next
  case (fail3 x1 w1 x2 w2 e)
  note t1 = uploadWhen_trace [OF fail3(1)] and t2 = uploadWhen_trace [OF fail3(2)]
    and t3 = uploadWhen_trace [OF fail3(3)]
  note tr = extends_trans [OF t1(1) t2(1)]
  note tr' = extends_trans [OF tr(1) t3(1)]
  from t1 t2 t3 tr tr' fail3(4) show ?thesis by (auto dest: list_all_okBatch)
next
  case (json x1 w1 x2 w2 x3 w3)
  note t1 = uploadWhen_trace [OF json(1)] and t2 = uploadWhen_trace [OF json(2)]
    and t3 = uploadWhen_trace [OF json(3)] and t4 = uploadJSONToIPFS_trace [OF json(4)]
  note tr = extends_trans [OF t1(1) t2(1)]
  note tr' = extends_trans [OF tr(1) t3(1)]
  note tr'' = extends_trans [OF tr'(1) t4(1)]
  have "list_all (\<lambda>c. \<not> failedBatch c) (newCalls w w')"
    using t1 t2 t3 t4 tr tr' tr'' by (auto dest: list_all_okBatch)
  with fail show ?thesis by (auto simp: list_all_iff)
qed

lemma publishProfile_batches:
  assumes run: "publishProfile srv now w data cf pf pic = (r, w')"
  shows "list_all (\<lambda>c. batchOf c \<in> {None, Some cf, Some (take 10 pf), Some pic}) (newCalls w w')"
proof -
  have weaken: "\<And>b cs. list_all (\<lambda>c. batchOf c = Some b) cs \<Longrightarrow> b \<in> {cf, take 10 pf, pic} \<Longrightarrow>
    list_all (\<lambda>c. batchOf c \<in> {None, Some cf, Some (take 10 pf), Some pic}) cs"
    by (auto simp: list_all_iff)
  show ?thesis
    using run
  proof (cases rule: publishProfile_cases)
    case (fail1 e)
    from uploadWhen_trace [OF fail1(1)] show ?thesis by (auto intro: weaken)
  next
    case (fail2 x1 w1 e)
    note t1 = uploadWhen_trace [OF fail2(1)] and t2 = uploadWhen_trace [OF fail2(2)]
    note tr = extends_trans [OF t1(1) t2(1)]
    from weaken [OF t1(4)] weaken [OF t2(4)] tr show ?thesis by simp
  next
    case (fail3 x1 w1 x2 w2 e)
    note t1 = uploadWhen_trace [OF fail3(1)] and t2 = uploadWhen_trace [OF fail3(2)]
      and t3 = uploadWhen_trace [OF fail3(3)]
    note tr = extends_trans [OF t1(1) t2(1)]
    note tr' = extends_trans [OF tr(1) t3(1)]
    from weaken [OF t1(4)] weaken [OF t2(4)] weaken [OF t3(4)] tr tr' show ?thesis by simp
  next
    case (json x1 w1 x2 w2 x3 w3)
    note t1 = uploadWhen_trace [OF json(1)] and t2 = uploadWhen_trace [OF json(2)]
      and t3 = uploadWhen_trace [OF json(3)] and t4 = uploadJSONToIPFS_trace [OF json(4)]
    note tr = extends_trans [OF t1(1) t2(1)]
    note tr' = extends_trans [OF tr(1) t3(1)]
    note tr'' = extends_trans [OF tr'(1) t4(1)]
    from weaken [OF t1(4)] weaken [OF t2(4)] weaken [OF t3(4)] t4 tr tr' tr'' show ?thesis by simp
  qed
qed

lemma publishJob_cases:
  assumes "publishJob srv now w data files = (r, w')"
  obtains
    (fail1) e where "uploadWhen (length files > 0) srv w files = (Inl e, w')" "r = Inl e"
  | (json) x1 w1 where "uploadWhen (length files > 0) srv w files = (Inr x1, w1)"
      "uploadJSONToIPFS srv w1 (JobDoc data now (cidOf x1)) = (r, w')"
  using assms unfolding publishJob_def
  by (auto split: prod.splits sum.splits)

lemma publishJob_abort:
  assumes run: "publishJob srv now w data files = (r, w')"
    and fail: "\<exists>c\<in>set (newCalls w w'). failedBatch c"
  shows "list_all (\<lambda>c. \<not> isJsonCall c) (newCalls w w')
         \<and> list_all (\<lambda>q. \<not> isJsonUpload q) (newRequests w w')
         \<and> (\<exists>fs e. last (newCalls w w') = FilesCall fs (Inl e) \<and> r = Inl e)"
using run proof (cases rule: publishJob_cases)
  case (fail1 e)
  from uploadWhen_trace [OF fail1(1)] fail1(2) show ?thesis by simp
next
  case (json x1 w1)
  note t1 = uploadWhen_trace [OF json(1)] and t4 = uploadJSONToIPFS_trace [OF json(2)]
  note tr = extends_trans [OF t1(1) t4(1)]
  have "list_all (\<lambda>c. \<not> failedBatch c) (newCalls w w')"
    using t1 t4 tr by (auto dest: list_all_okBatch)
  with fail show ?thesis by (auto simp: list_all_iff)
qed

lemma profile_run_example:
  "onSubmit acceptFirstOnly ''2026'' freshPage (startWorld (Some ''tok''))
          (sampleProfile [sampleFile ''cert.pdf'' 100] [sampleFile ''work.png'' 200] [])
   = (freshPage\<lparr>alerts := [''IPFS upload failed: quota exceeded'']\<rparr>,
      \<lparr>token = Some ''tok'',
       fetch_log = [FilesUpload ''tok'' [sampleFile ''cert.pdf'' 100],
                    FilesUpload ''tok'' [sampleFile ''work.png'' 200]],
       calls = [FilesCall [sampleFile ''cert.pdf'' 100]
                  (Inr \<lparr>cid = Some ''bafy'', url = ''https://w3s.link/ipfs/bafy''\<rparr>),
                FilesCall [sampleFile ''work.png'' 200]
                  (Inl (Error ''IPFS upload failed: quota exceeded''))]\<rparr>)"
  by (simp add: run_defs sample_defs)

lemma job_run_example:
  "onSubmit_job rejectingServer ''2026'' freshJobPage (startWorld (Some ''tok''))
          (sampleJobWith [sampleFile ''brief.pdf'' 100])
   = (freshJobPage\<lparr>alerts := [''IPFS upload failed: quota exceeded'']\<rparr>,
      \<lparr>token = Some ''tok'',
       fetch_log = [FilesUpload ''tok'' [sampleFile ''brief.pdf'' 100]],
       calls = [FilesCall [sampleFile ''brief.pdf'' 100]
                  (Inl (Error ''IPFS upload failed: quota exceeded''))]\<rparr>)"
  by (simp add: run_defs sample_defs)

lemma onSubmit_rejected:
  assumes "validateProfile data = Inl m"
  shows "onSubmit srv now p w data = (p\<lparr>attErr := Some m\<rparr>, w)"
  using assms by (simp add: onSubmit_def Let_def)

lemma onSubmit_job_rejected:
  assumes "validateJob job = Inl m"
  shows "onSubmit_job srv now q w job = (q\<lparr>attErr := Some m\<rparr>, w)"
  using assms by (simp add: onSubmit_job_def Let_def)

lemma validateProfile_messages:
  "validateProfile data = Inl m \<Longrightarrow>
     m \<in> {''Certification exceeds 5MB'', ''Portfolio file exceeds 5MB'', ''Profile picture exceeds 5MB''}"
  by (auto simp: validateProfile_def split: option.splits)

lemma validateJob_message:
  "validateJob job = Inl m \<Longrightarrow> m = ''Attachment exceeds 10MB limit''"
  by (auto simp: validateJob_def split: option.splits)

lemma onSubmit_accepted:
  assumes "validateProfile data = Inr (cf, pf, pic)"
  shows "attErr (fst (onSubmit srv now p w data)) = None"
    and "\<exists>r. publishProfile srv now w data cf pf pic = (r, snd (onSubmit srv now p w data))"
  using assms by (auto simp: onSubmit_def Let_def split: prod.splits sum.splits)

lemma onSubmit_job_accepted:
  assumes "validateJob job = Inr v"
  shows "attErr (fst (onSubmit_job srv now q w job)) = None"
  using assms by (auto simp: onSubmit_job_def Let_def split: prod.splits sum.splits)

lemma validateProfile_Inr_bytes:
  "validateProfile data = Inr v \<longleftrightarrow>
     (\<forall>f\<in>set (fileList (certifications data)). size_bytes f \<le> 5 * 1024 * 1024)
     \<and> (\<forall>f\<in>set (fileList (portfolioFiles data)). size_bytes f \<le> 5 * 1024 * 1024)
     \<and> (case fileList (profilePicture data) of [] \<Rightarrow> True
         | f # rest \<Rightarrow> size_bytes f \<le> 5 * 1024 * 1024)
     \<and> v = (fileList (certifications data), fileList (portfolioFiles data),
            take 1 (fileList (profilePicture data)))"
  unfolding validateProfile_Inr by (simp add: checkSize_def split: list.splits)

lemma validateProfile_Inl_bytes:
  "(\<exists>m. validateProfile data = Inl m) \<longleftrightarrow>
     (\<exists>f\<in>set (fileList (certifications data)). size_bytes f > 5 * 1024 * 1024)
     \<or> (\<exists>f\<in>set (fileList (portfolioFiles data)). size_bytes f > 5 * 1024 * 1024)
     \<or> (case fileList (profilePicture data) of [] \<Rightarrow> False
         | f # rest \<Rightarrow> size_bytes f > 5 * 1024 * 1024)"
  unfolding validateProfile_Inl by (simp add: checkSize_def not_le split: list.splits)

text \<open>
  Claim C3: in every run of either submit handler in which some call of
  \<open>uploadFilesToIPFS\<close> fails, \<open>uploadJSONToIPFS\<close> is never called and no document request
  is sent; the page gets no document address and is not marked successful; the failed
  batch call is the last call of the run and its error message is the one alerted.
\<close>

theorem batch_failure_aborts_publish:
  "(onSubmit srv now p w data = (p', w') \<and> (\<exists>c\<in>set (newCalls w w'). failedBatch c)
      \<longrightarrow> list_all (\<lambda>c. \<not> isJsonCall c) (newCalls w w')
        \<and> list_all (\<lambda>r. \<not> isJsonUpload r) (newRequests w w')
        \<and> ipfsUrl p' = ipfsUrl p \<and> isSuccess p' = isSuccess p
        \<and> (\<exists>fs e. last (newCalls w w') = FilesCall fs (Inl e)
               \<and> alerts p' = alerts p @ [alertText e ''Failed to publish profile'']))
   \<and> (onSubmit_job srv now q w job = (q', w'') \<and> (\<exists>c\<in>set (newCalls w w''). failedBatch c)
      \<longrightarrow> list_all (\<lambda>c. \<not> isJsonCall c) (newCalls w w'')
        \<and> list_all (\<lambda>r. \<not> isJsonUpload r) (newRequests w w'')
        \<and> ipfsUrl q' = ipfsUrl q \<and> isSuccess q' = isSuccess q \<and> lastJob q' = lastJob q
        \<and> (\<exists>fs e. last (newCalls w w'') = FilesCall fs (Inl e)
               \<and> alerts q' = alerts q @ [alertText e ''Failed to publish job'']))"
proof (rule conjI; rule impI)
  assume a: "onSubmit srv now p w data = (p', w') \<and> (\<exists>c\<in>set (newCalls w w'). failedBatch c)"
  then have run: "onSubmit srv now p w data = (p', w')"
    and fail: "\<exists>c\<in>set (newCalls w w'). failedBatch c" by simp_all
  show "list_all (\<lambda>c. \<not> isJsonCall c) (newCalls w w')
        \<and> list_all (\<lambda>r. \<not> isJsonUpload r) (newRequests w w')
        \<and> ipfsUrl p' = ipfsUrl p \<and> isSuccess p' = isSuccess p
        \<and> (\<exists>fs e. last (newCalls w w') = FilesCall fs (Inl e)
               \<and> alerts p' = alerts p @ [alertText e ''Failed to publish profile''])"
  proof (cases "validateProfile data")
    case (Inl m)
    with run have "w' = w" by (simp add: onSubmit_def Let_def)
    with fail show ?thesis by (simp add: newCalls_same)
  next
    case (Inr v)
    obtain cf pf pic where v: "v = (cf, pf, pic)" by (cases v) auto
    obtain r w1 where pub: "publishProfile srv now w data cf pf pic = (r, w1)"
      by (cases "publishProfile srv now w data cf pf pic") auto
    have w1: "w1 = w'" using run Inr v pub by (auto simp: onSubmit_def Let_def split: sum.splits)
    from publishProfile_abort [OF pub] fail w1
    obtain fs e where ab: "list_all (\<lambda>c. \<not> isJsonCall c) (newCalls w w')"
      "list_all (\<lambda>r. \<not> isJsonUpload r) (newRequests w w')"
      "last (newCalls w w') = FilesCall fs (Inl e)" "r = Inl e" by auto
    have "p' = p\<lparr>attErr := None, alerts := alerts p @ [alertText e ''Failed to publish profile'']\<rparr>"
      using run Inr v pub ab(4) by (simp add: onSubmit_def Let_def)
    with ab show ?thesis by simp
  qed
next
  assume a: "onSubmit_job srv now q w job = (q', w'') \<and> (\<exists>c\<in>set (newCalls w w''). failedBatch c)"
  then have run: "onSubmit_job srv now q w job = (q', w'')"
    and fail: "\<exists>c\<in>set (newCalls w w''). failedBatch c" by simp_all
  show "list_all (\<lambda>c. \<not> isJsonCall c) (newCalls w w'')
        \<and> list_all (\<lambda>r. \<not> isJsonUpload r) (newRequests w w'')
        \<and> ipfsUrl q' = ipfsUrl q \<and> isSuccess q' = isSuccess q \<and> lastJob q' = lastJob q
        \<and> (\<exists>fs e. last (newCalls w w'') = FilesCall fs (Inl e)
               \<and> alerts q' = alerts q @ [alertText e ''Failed to publish job''])"
  proof (cases "validateJob job")
    case (Inl m)
    with run have "w'' = w" by (simp add: onSubmit_job_def Let_def)
    with fail show ?thesis by (simp add: newCalls_same)
  next
    case (Inr files)
    obtain r w1 where pub: "publishJob srv now w job files = (r, w1)"
      by (cases "publishJob srv now w job files") auto
    have w1: "w1 = w''" using run Inr pub by (auto simp: onSubmit_job_def Let_def split: sum.splits)
    from publishJob_abort [OF pub] fail w1
    obtain fs e where ab: "list_all (\<lambda>c. \<not> isJsonCall c) (newCalls w w'')"
      "list_all (\<lambda>r. \<not> isJsonUpload r) (newRequests w w'')"
      "last (newCalls w w'') = FilesCall fs (Inl e)" "r = Inl e" by auto
    have "q' = q\<lparr>attErr := None, alerts := alerts q @ [alertText e ''Failed to publish job'']\<rparr>"
      using run Inr pub ab(4) by (simp add: onSubmit_job_def Let_def)
    with ab show ?thesis by simp
  qed
qed

theorem batch_failure_aborts_publish_witness:
  "(\<exists>c\<in>set (newCalls (startWorld (Some ''tok''))
        (snd (onSubmit acceptFirstOnly ''2026'' freshPage (startWorld (Some ''tok''))
          (sampleProfile [sampleFile ''cert.pdf'' 100] [sampleFile ''work.png'' 200] [])))).
      failedBatch c)
   \<and> list_all (\<lambda>c. \<not> isJsonCall c) (newCalls (startWorld (Some ''tok''))
        (snd (onSubmit acceptFirstOnly ''2026'' freshPage (startWorld (Some ''tok''))
          (sampleProfile [sampleFile ''cert.pdf'' 100] [sampleFile ''work.png'' 200] []))))
   \<and> alerts (fst (onSubmit acceptFirstOnly ''2026'' freshPage (startWorld (Some ''tok''))
          (sampleProfile [sampleFile ''cert.pdf'' 100] [sampleFile ''work.png'' 200] [])))
       = [''IPFS upload failed: quota exceeded'']
   \<and> (\<exists>c\<in>set (newCalls (startWorld (Some ''tok''))
        (snd (onSubmit_job rejectingServer ''2026'' freshJobPage (startWorld (Some ''tok''))
          (sampleJobWith [sampleFile ''brief.pdf'' 100])))).
      failedBatch c)
   \<and> list_all (\<lambda>c. \<not> isJsonCall c) (newCalls (startWorld (Some ''tok''))
        (snd (onSubmit_job rejectingServer ''2026'' freshJobPage (startWorld (Some ''tok''))
          (sampleJobWith [sampleFile ''brief.pdf'' 100]))))
   \<and> alerts (fst (onSubmit_job rejectingServer ''2026'' freshJobPage (startWorld (Some ''tok''))
          (sampleJobWith [sampleFile ''brief.pdf'' 100])))
       = [''IPFS upload failed: quota exceeded'']"
proof -
  let ?w = "startWorld (Some ''tok'')"
  let ?run = "onSubmit acceptFirstOnly ''2026'' freshPage ?w
          (sampleProfile [sampleFile ''cert.pdf'' 100] [sampleFile ''work.png'' 200] [])"
  let ?jrun = "onSubmit_job rejectingServer ''2026'' freshJobPage ?w
          (sampleJobWith [sampleFile ''brief.pdf'' 100])"
  have f1: "\<exists>c\<in>set (newCalls ?w (snd ?run)). failedBatch c"
    by (simp add: profile_run_example) (simp add: newCalls_def startWorld_def)
  have f2: "\<exists>c\<in>set (newCalls ?w (snd ?jrun)). failedBatch c"
    by (simp add: job_run_example) (simp add: newCalls_def startWorld_def)
  have a1: "alerts freshPage = []" "alerts freshJobPage = []"
    by (simp_all add: freshPage_def freshJobPage_def)
  from f1 batch_failure_aborts_publish
    [where srv = acceptFirstOnly and now = "''2026''" and p = freshPage and w = ?w
       and data = "sampleProfile [sampleFile ''cert.pdf'' 100] [sampleFile ''work.png'' 200] []"
       and p' = "fst ?run" and w' = "snd ?run"]
  have p: "list_all (\<lambda>c. \<not> isJsonCall c) (newCalls ?w (snd ?run))"
    "\<exists>fs e. last (newCalls ?w (snd ?run)) = FilesCall fs (Inl e)
        \<and> alerts (fst ?run) = alerts freshPage @ [alertText e ''Failed to publish profile'']"
    by simp_all
  from f2 batch_failure_aborts_publish
    [where srv = rejectingServer and now = "''2026''" and q = freshJobPage and w = ?w
       and job = "sampleJobWith [sampleFile ''brief.pdf'' 100]"
       and q' = "fst ?jrun" and w'' = "snd ?jrun"]
  have q: "list_all (\<lambda>c. \<not> isJsonCall c) (newCalls ?w (snd ?jrun))"
    "\<exists>fs e. last (newCalls ?w (snd ?jrun)) = FilesCall fs (Inl e)
        \<and> alerts (fst ?jrun) = alerts freshJobPage @ [alertText e ''Failed to publish job'']"
    by simp_all
  have l1: "last (newCalls ?w (snd ?run))
      = FilesCall [sampleFile ''work.png'' 200] (Inl (Error ''IPFS upload failed: quota exceeded''))"
    by (simp add: profile_run_example) (simp add: newCalls_def startWorld_def)
  have l2: "last (newCalls ?w (snd ?jrun))
      = FilesCall [sampleFile ''brief.pdf'' 100] (Inl (Error ''IPFS upload failed: quota exceeded''))"
    by (simp add: job_run_example) (simp add: newCalls_def startWorld_def)
  from p(2) l1 a1 have r1: "alerts (fst ?run) = [''IPFS upload failed: quota exceeded'']"
    by (auto simp: alertText_def)
  from q(2) l2 a1 have r2: "alerts (fst ?jrun) = [''IPFS upload failed: quota exceeded'']"
    by (auto simp: alertText_def)
  from f1 f2 p(1) q(1) r1 r2 show ?thesis by blast
qed

text \<open>
  Claim C5, as the code has it. Whenever the size check of a handler fails (a
  certification or portfolio file, or the first profile picture, above \<open>5 * 1024 * 1024\<close>
  bytes; a job attachment above \<open>10 * 1024 * 1024\<close> bytes), the handler ends with the
  validation message in \<open>attErr\<close> and the world unchanged: no call of either upload
  function and no request. The number of files is not part of the check.
\<close>

theorem validation_failure_no_network:
  "((\<exists>f\<in>set (fileList (certifications data)). size_bytes f > 5 * 1024 * 1024)
      \<or> (\<exists>f\<in>set (fileList (portfolioFiles data)). size_bytes f > 5 * 1024 * 1024)
      \<or> (case fileList (profilePicture data) of [] \<Rightarrow> False
          | f # rest \<Rightarrow> size_bytes f > 5 * 1024 * 1024)
     \<longrightarrow> snd (onSubmit srv now p w data) = w
       \<and> attErr (fst (onSubmit srv now p w data))
           \<in> {Some ''Certification exceeds 5MB'', Some ''Portfolio file exceeds 5MB'',
              Some ''Profile picture exceeds 5MB''}
       \<and> alerts (fst (onSubmit srv now p w data)) = alerts p
       \<and> ipfsUrl (fst (onSubmit srv now p w data)) = ipfsUrl p
       \<and> isSuccess (fst (onSubmit srv now p w data)) = isSuccess p)
   \<and> ((\<exists>f\<in>set (fileList (attachments job)). size_bytes f > 10 * 1024 * 1024)
     \<longrightarrow> snd (onSubmit_job srv now q w job) = w
       \<and> attErr (fst (onSubmit_job srv now q w job)) = Some ''Attachment exceeds 10MB limit''
       \<and> alerts (fst (onSubmit_job srv now q w job)) = alerts q
       \<and> ipfsUrl (fst (onSubmit_job srv now q w job)) = ipfsUrl q
       \<and> isSuccess (fst (onSubmit_job srv now q w job)) = isSuccess q)"
proof (rule conjI; rule impI)
  assume "(\<exists>f\<in>set (fileList (certifications data)). size_bytes f > 5 * 1024 * 1024)
      \<or> (\<exists>f\<in>set (fileList (portfolioFiles data)). size_bytes f > 5 * 1024 * 1024)
      \<or> (case fileList (profilePicture data) of [] \<Rightarrow> False
          | f # rest \<Rightarrow> size_bytes f > 5 * 1024 * 1024)"
  then obtain m where m: "validateProfile data = Inl m"
    using validateProfile_Inl_bytes [of data] by blast
  from validateProfile_messages [OF m] onSubmit_rejected [OF m, of srv now p w]
  show "snd (onSubmit srv now p w data) = w
       \<and> attErr (fst (onSubmit srv now p w data))
           \<in> {Some ''Certification exceeds 5MB'', Some ''Portfolio file exceeds 5MB'',
              Some ''Profile picture exceeds 5MB''}
       \<and> alerts (fst (onSubmit srv now p w data)) = alerts p
       \<and> ipfsUrl (fst (onSubmit srv now p w data)) = ipfsUrl p
       \<and> isSuccess (fst (onSubmit srv now p w data)) = isSuccess p"
    by auto
next
  assume "\<exists>f\<in>set (fileList (attachments job)). size_bytes f > 10 * 1024 * 1024"
  then obtain m where m: "validateJob job = Inl m"
    using validateJob_Inl [of job] by blast
  from validateJob_message [OF m] onSubmit_job_rejected [OF m, of srv now q w]
  show "snd (onSubmit_job srv now q w job) = w
       \<and> attErr (fst (onSubmit_job srv now q w job)) = Some ''Attachment exceeds 10MB limit''
       \<and> alerts (fst (onSubmit_job srv now q w job)) = alerts q
       \<and> ipfsUrl (fst (onSubmit_job srv now q w job)) = ipfsUrl q
       \<and> isSuccess (fst (onSubmit_job srv now q w job)) = isSuccess q"
    by auto
qed

theorem validation_failure_no_network_witness:
  "(\<exists>f\<in>set (fileList (portfolioFiles
        (sampleProfile [sampleFile ''cert.pdf'' 100] [sampleFile ''big.png'' 6000000] []))).
      size_bytes f > 5 * 1024 * 1024)
   \<and> snd (onSubmit acceptingServer ''2026'' freshPage (startWorld (Some ''tok''))
        (sampleProfile [sampleFile ''cert.pdf'' 100] [sampleFile ''big.png'' 6000000] []))
       = startWorld (Some ''tok'')
   \<and> attErr (fst (onSubmit acceptingServer ''2026'' freshPage (startWorld (Some ''tok''))
        (sampleProfile [sampleFile ''cert.pdf'' 100] [sampleFile ''big.png'' 6000000] [])))
       = Some ''Portfolio file exceeds 5MB''
   \<and> (\<exists>f\<in>set (fileList (attachments (sampleJobWith [sampleFile ''brief.pdf'' 10485761]))).
      size_bytes f > 10 * 1024 * 1024)
   \<and> snd (onSubmit_job acceptingServer ''2026'' freshJobPage (startWorld (Some ''tok''))
        (sampleJobWith [sampleFile ''brief.pdf'' 10485761]))
       = startWorld (Some ''tok'')
   \<and> attErr (fst (onSubmit_job acceptingServer ''2026'' freshJobPage (startWorld (Some ''tok''))
        (sampleJobWith [sampleFile ''brief.pdf'' 10485761])))
       = Some ''Attachment exceeds 10MB limit''"
proof -
  let ?d = "sampleProfile [sampleFile ''cert.pdf'' 100] [sampleFile ''big.png'' 6000000] []"
  let ?j = "sampleJobWith [sampleFile ''brief.pdf'' 10485761]"
  have h1: "\<exists>f\<in>set (fileList (portfolioFiles ?d)). size_bytes f > 5 * 1024 * 1024"
    by (simp add: sample_defs fileList_def)
  have h2: "\<exists>f\<in>set (fileList (attachments ?j)). size_bytes f > 10 * 1024 * 1024"
    by (simp add: sample_defs fileList_def)
  have m: "attErr (fst (onSubmit acceptingServer ''2026'' freshPage (startWorld (Some ''tok'')) ?d))
       = Some ''Portfolio file exceeds 5MB''"
    by (simp add: run_defs sample_defs)
  from h1 h2 m validation_failure_no_network
    [where data = ?d and job = ?j and srv = acceptingServer and now = "''2026''"
       and p = freshPage and q = freshJobPage and w = "startWorld (Some ''tok'')"]
  show ?thesis by blast
qed

text \<open>
  Claim C5 as stated fails for the count rule: twelve portfolio files, two more than the
  ten the page allows, raise no validation error, and the run issues two requests.
\<close>

theorem validation_count_counterexample:
  "length (fileList (portfolioFiles (sampleProfile [] twelveFiles []))) = 12
   \<and> attErr (fst (onSubmit acceptingServer ''2026'' freshPage (startWorld (Some ''tok''))
        (sampleProfile [] twelveFiles []))) = None
   \<and> length (fetch_log (snd (onSubmit acceptingServer ''2026'' freshPage
        (startWorld (Some ''tok'')) (sampleProfile [] twelveFiles [])))) = 2
   \<and> length (calls (snd (onSubmit acceptingServer ''2026'' freshPage
        (startWorld (Some ''tok'')) (sampleProfile [] twelveFiles [])))) = 2"
  by (simp add: run_defs sample_defs twelveFiles_def elevenFiles_def)

text \<open>
  Claim C9: validation accepts a submission exactly when every checked file is at most its
  role's limit in bytes, \<open>5 * 1024 * 1024\<close> on the profile page and \<open>10 * 1024 * 1024\<close> on the
  job page; so a file of exactly the limit is accepted and one byte more is rejected.
\<close>

theorem size_boundary_inclusive:
  "(attErr (fst (onSubmit srv now p w data)) = None \<longleftrightarrow>
       (\<forall>f\<in>set (fileList (certifications data)). size_bytes f \<le> 5 * 1024 * 1024)
       \<and> (\<forall>f\<in>set (fileList (portfolioFiles data)). size_bytes f \<le> 5 * 1024 * 1024)
       \<and> (case fileList (profilePicture data) of [] \<Rightarrow> True
           | f # rest \<Rightarrow> size_bytes f \<le> 5 * 1024 * 1024))
   \<and> (attErr (fst (onSubmit_job srv now q w job)) = None \<longleftrightarrow>
       (\<forall>f\<in>set (fileList (attachments job)). size_bytes f \<le> 10 * 1024 * 1024))"
proof (rule conjI)
  show "attErr (fst (onSubmit srv now p w data)) = None \<longleftrightarrow>
       (\<forall>f\<in>set (fileList (certifications data)). size_bytes f \<le> 5 * 1024 * 1024)
       \<and> (\<forall>f\<in>set (fileList (portfolioFiles data)). size_bytes f \<le> 5 * 1024 * 1024)
       \<and> (case fileList (profilePicture data) of [] \<Rightarrow> True
           | f # rest \<Rightarrow> size_bytes f \<le> 5 * 1024 * 1024)"
  proof (cases "validateProfile data")
    case (Inl m)
    from onSubmit_rejected [OF Inl, of srv now p w]
    have "attErr (fst (onSubmit srv now p w data)) \<noteq> None" by simp
    moreover from Inl validateProfile_Inr_bytes [of data] have "\<not> (
       (\<forall>f\<in>set (fileList (certifications data)). size_bytes f \<le> 5 * 1024 * 1024)
       \<and> (\<forall>f\<in>set (fileList (portfolioFiles data)). size_bytes f \<le> 5 * 1024 * 1024)
       \<and> (case fileList (profilePicture data) of [] \<Rightarrow> True
           | f # rest \<Rightarrow> size_bytes f \<le> 5 * 1024 * 1024))"
      by auto
    ultimately show ?thesis by blast
  next
    case (Inr v)
    obtain cf pf pic where v: "v = (cf, pf, pic)" by (cases v) auto
    from onSubmit_accepted(1) [where data = data and cf = cf and pf = pf and pic = pic
        and srv = srv and now = now and p = p and w = w] Inr v
      validateProfile_Inr_bytes [of data v]
    show ?thesis by blast
  qed
next
  show "attErr (fst (onSubmit_job srv now q w job)) = None \<longleftrightarrow>
       (\<forall>f\<in>set (fileList (attachments job)). size_bytes f \<le> 10 * 1024 * 1024)"
  proof (cases "validateJob job")
    case (Inl m)
    from onSubmit_job_rejected [OF Inl, of srv now q w]
    have "attErr (fst (onSubmit_job srv now q w job)) \<noteq> None" by simp
    moreover from Inl validateJob_Inr [of job] have
      "\<not> (\<forall>f\<in>set (fileList (attachments job)). size_bytes f \<le> 10 * 1024 * 1024)"
      by auto
    ultimately show ?thesis by blast
  next
    case (Inr v)
    from onSubmit_job_accepted [OF Inr, of srv now q w] Inr validateJob_Inr [of job v]
    show ?thesis by blast
  qed
qed

theorem size_boundary_inclusive_witness:
  "attErr (fst (onSubmit acceptingServer ''2026'' freshPage (startWorld (Some ''tok''))
      (sampleProfile [sampleFile ''cert.pdf'' (5 * 1024 * 1024)]
         [sampleFile ''work.png'' (5 * 1024 * 1024)] [sampleFile ''me.png'' (5 * 1024 * 1024)])))
     = None
   \<and> attErr (fst (onSubmit acceptingServer ''2026'' freshPage (startWorld (Some ''tok''))
      (sampleProfile [sampleFile ''cert.pdf'' (5 * 1024 * 1024 + 1)] [] []))) \<noteq> None
   \<and> attErr (fst (onSubmit acceptingServer ''2026'' freshPage (startWorld (Some ''tok''))
      (sampleProfile [] [sampleFile ''work.png'' (5 * 1024 * 1024 + 1)] []))) \<noteq> None
   \<and> attErr (fst (onSubmit acceptingServer ''2026'' freshPage (startWorld (Some ''tok''))
      (sampleProfile [] [] [sampleFile ''me.png'' (5 * 1024 * 1024 + 1)]))) \<noteq> None
   \<and> attErr (fst (onSubmit_job acceptingServer ''2026'' freshJobPage (startWorld (Some ''tok''))
      (sampleJobWith [sampleFile ''brief.pdf'' (10 * 1024 * 1024)]))) = None
   \<and> attErr (fst (onSubmit_job acceptingServer ''2026'' freshJobPage (startWorld (Some ''tok''))
      (sampleJobWith [sampleFile ''brief.pdf'' (10 * 1024 * 1024 + 1)]))) \<noteq> None"
proof -
  note b = size_boundary_inclusive [where srv = acceptingServer and now = "''2026''"
      and p = freshPage and q = freshJobPage and w = "startWorld (Some ''tok'')"]
  have 1: "attErr (fst (onSubmit acceptingServer ''2026'' freshPage (startWorld (Some ''tok''))
      (sampleProfile [sampleFile ''cert.pdf'' (5 * 1024 * 1024)]
         [sampleFile ''work.png'' (5 * 1024 * 1024)] [sampleFile ''me.png'' (5 * 1024 * 1024)])))
     = None"
    using b [where data = "sampleProfile [sampleFile ''cert.pdf'' (5 * 1024 * 1024)]
         [sampleFile ''work.png'' (5 * 1024 * 1024)] [sampleFile ''me.png'' (5 * 1024 * 1024)]"]
    by (simp add: sample_defs fileList_def)
  have 2: "attErr (fst (onSubmit acceptingServer ''2026'' freshPage (startWorld (Some ''tok''))
      (sampleProfile [sampleFile ''cert.pdf'' (5 * 1024 * 1024 + 1)] [] []))) \<noteq> None"
    using b [where data = "sampleProfile [sampleFile ''cert.pdf'' (5 * 1024 * 1024 + 1)] [] []"]
    by (simp add: sample_defs fileList_def)
  have 3: "attErr (fst (onSubmit acceptingServer ''2026'' freshPage (startWorld (Some ''tok''))
      (sampleProfile [] [sampleFile ''work.png'' (5 * 1024 * 1024 + 1)] []))) \<noteq> None"
    using b [where data = "sampleProfile [] [sampleFile ''work.png'' (5 * 1024 * 1024 + 1)] []"]
    by (simp add: sample_defs fileList_def)
  have 4: "attErr (fst (onSubmit acceptingServer ''2026'' freshPage (startWorld (Some ''tok''))
      (sampleProfile [] [] [sampleFile ''me.png'' (5 * 1024 * 1024 + 1)]))) \<noteq> None"
    using b [where data = "sampleProfile [] [] [sampleFile ''me.png'' (5 * 1024 * 1024 + 1)]"]
    by (simp add: sample_defs fileList_def)
  have 5: "attErr (fst (onSubmit_job acceptingServer ''2026'' freshJobPage (startWorld (Some ''tok''))
      (sampleJobWith [sampleFile ''brief.pdf'' (10 * 1024 * 1024)]))) = None"
    using b [where job = "sampleJobWith [sampleFile ''brief.pdf'' (10 * 1024 * 1024)]"]
    by (simp add: sample_defs fileList_def)
  have 6: "attErr (fst (onSubmit_job acceptingServer ''2026'' freshJobPage (startWorld (Some ''tok''))
      (sampleJobWith [sampleFile ''brief.pdf'' (10 * 1024 * 1024 + 1)]))) \<noteq> None"
    using b [where job = "sampleJobWith [sampleFile ''brief.pdf'' (10 * 1024 * 1024 + 1)]"]
    by (simp add: sample_defs fileList_def)
  from 1 2 3 4 5 6 show ?thesis by blast
qed

text \<open>
  Claim C2, as the code has it. No number of files makes validation fail: when every
  checked file is within the size limit, \<open>onSubmit\<close> sets no attachment error, and the only
  batches it uploads are the whole certification list, the first ten portfolio files
  (\<^verbatim>\<open>pfFiles.slice(0, 10)\<close>) and the first profile picture.
\<close>

theorem portfolio_excess_dropped:
  "(\<forall>f\<in>set (fileList (certifications data)). size_bytes f \<le> 5 * 1024 * 1024)
   \<and> (\<forall>f\<in>set (fileList (portfolioFiles data)). size_bytes f \<le> 5 * 1024 * 1024)
   \<and> (case fileList (profilePicture data) of [] \<Rightarrow> True
       | f # rest \<Rightarrow> size_bytes f \<le> 5 * 1024 * 1024)
   \<longrightarrow> attErr (fst (onSubmit srv now p w data)) = None
     \<and> list_all (\<lambda>c. batchOf c \<in> {None, Some (fileList (certifications data)),
                                   Some (take 10 (fileList (portfolioFiles data))),
                                   Some (take 1 (fileList (profilePicture data)))})
          (newCalls w (snd (onSubmit srv now p w data)))"
proof
  assume "(\<forall>f\<in>set (fileList (certifications data)). size_bytes f \<le> 5 * 1024 * 1024)
   \<and> (\<forall>f\<in>set (fileList (portfolioFiles data)). size_bytes f \<le> 5 * 1024 * 1024)
   \<and> (case fileList (profilePicture data) of [] \<Rightarrow> True
       | f # rest \<Rightarrow> size_bytes f \<le> 5 * 1024 * 1024)"
  then have v: "validateProfile data = Inr (fileList (certifications data),
       fileList (portfolioFiles data), take 1 (fileList (profilePicture data)))"
    using validateProfile_Inr_bytes [of data] by blast
  from onSubmit_accepted(2) [OF v, where srv = srv and now = now and p = p and w = w] obtain r where
    "publishProfile srv now w data (fileList (certifications data))
       (fileList (portfolioFiles data)) (take 1 (fileList (profilePicture data)))
     = (r, snd (onSubmit srv now p w data))" by blast
  from publishProfile_batches [OF this] onSubmit_accepted(1) [OF v, where srv = srv and now = now and p = p and w = w]
  show "attErr (fst (onSubmit srv now p w data)) = None
     \<and> list_all (\<lambda>c. batchOf c \<in> {None, Some (fileList (certifications data)),
                                   Some (take 10 (fileList (portfolioFiles data))),
                                   Some (take 1 (fileList (profilePicture data)))})
          (newCalls w (snd (onSubmit srv now p w data)))"
    by simp
qed

theorem portfolio_excess_dropped_witness:
  "length (fileList (portfolioFiles (sampleProfile [] elevenFiles []))) = 11
   \<and> attErr (fst (onSubmit acceptingServer ''2026'' freshPage (startWorld (Some ''tok''))
        (sampleProfile [] elevenFiles []))) = None
   \<and> list_all (\<lambda>c. batchOf c \<in> {None, Some [], Some (take 10 elevenFiles)})
        (newCalls (startWorld (Some ''tok''))
          (snd (onSubmit acceptingServer ''2026'' freshPage (startWorld (Some ''tok''))
             (sampleProfile [] elevenFiles []))))"
proof -
  have h: "(\<forall>f\<in>set (fileList (certifications (sampleProfile [] elevenFiles []))).
              size_bytes f \<le> 5 * 1024 * 1024)
   \<and> (\<forall>f\<in>set (fileList (portfolioFiles (sampleProfile [] elevenFiles []))).
              size_bytes f \<le> 5 * 1024 * 1024)
   \<and> (case fileList (profilePicture (sampleProfile [] elevenFiles [])) of [] \<Rightarrow> True
       | f # rest \<Rightarrow> size_bytes f \<le> 5 * 1024 * 1024)"
    by (simp add: sample_defs fileList_def elevenFiles_def)
  have l: "length (fileList (portfolioFiles (sampleProfile [] elevenFiles []))) = 11"
    by (simp add: sample_defs fileList_def elevenFiles_def)
  have f: "fileList (certifications (sampleProfile [] elevenFiles [])) = []"
    "fileList (portfolioFiles (sampleProfile [] elevenFiles [])) = elevenFiles"
    "fileList (profilePicture (sampleProfile [] elevenFiles [])) = []"
    by (simp_all add: sample_defs fileList_def)
  from h portfolio_excess_dropped [where data = "sampleProfile [] elevenFiles []"
      and srv = acceptingServer and now = "''2026''" and p = freshPage
      and w = "startWorld (Some ''tok'')"]
  have "attErr (fst (onSubmit acceptingServer ''2026'' freshPage (startWorld (Some ''tok''))
        (sampleProfile [] elevenFiles []))) = None
     \<and> list_all (\<lambda>c. batchOf c \<in> {None, Some [], Some (take 10 elevenFiles), Some (take 1 [])})
        (newCalls (startWorld (Some ''tok''))
          (snd (onSubmit acceptingServer ''2026'' freshPage (startWorld (Some ''tok''))
             (sampleProfile [] elevenFiles []))))"
    unfolding f by blast
  with l show ?thesis by (auto simp: list_all_iff)
qed

text \<open>
  Claim C2 as stated fails: with eleven portfolio files the run succeeds with no error of
  any kind, the uploaded batch is the first ten files, and the eleventh is dropped.
\<close>

theorem too_many_files_counterexample:
  "length (fileList (portfolioFiles (sampleProfile [] elevenFiles []))) = 11
   \<and> attErr (fst (onSubmit acceptingServer ''2026'' freshPage (startWorld (Some ''tok''))
        (sampleProfile [] elevenFiles []))) = None
   \<and> alerts (fst (onSubmit acceptingServer ''2026'' freshPage (startWorld (Some ''tok''))
        (sampleProfile [] elevenFiles []))) = []
   \<and> isSuccess (fst (onSubmit acceptingServer ''2026'' freshPage (startWorld (Some ''tok''))
        (sampleProfile [] elevenFiles [])))
   \<and> map batchOf (calls (snd (onSubmit acceptingServer ''2026'' freshPage
        (startWorld (Some ''tok'')) (sampleProfile [] elevenFiles []))))
       = [Some (butlast elevenFiles), None]
   \<and> last elevenFiles = sampleFile ''p11.png'' 1
   \<and> sampleFile ''p11.png'' 1 \<notin> set (butlast elevenFiles)"
  by (simp add: run_defs sample_defs elevenFiles_def)

text \<open>
  Claim C4, as the code has it. There is no uploader object and no construction step: each
  call of \<open>uploadFilesToIPFS\<close> and of \<open>uploadJSONToIPFS\<close> reads the token itself. When the
  token is undefined or empty at a call, that call fails with the missing-token error and
  sends no request; when it is present, the call sends one request carrying the token
  read at that call.
\<close>

theorem token_read_at_each_call:
  "(noToken (token w) \<longrightarrow>
      fst (uploadFilesToIPFS srv w files) = Inl missingToken
      \<and> fetch_log (snd (uploadFilesToIPFS srv w files)) = fetch_log w
      \<and> token (snd (uploadFilesToIPFS srv w files)) = token w
      \<and> fst (uploadJSONToIPFS srv w d) = Inl missingToken
      \<and> fetch_log (snd (uploadJSONToIPFS srv w d)) = fetch_log w
      \<and> token (snd (uploadJSONToIPFS srv w d)) = token w)
   \<and> (token w = Some t \<and> t \<noteq> [] \<longrightarrow>
      fetch_log (snd (uploadFilesToIPFS srv w files)) = fetch_log w @ [FilesUpload t files]
      \<and> fetch_log (snd (uploadJSONToIPFS srv w d)) = fetch_log w @ [JsonUpload t d])"
  by (auto simp: noToken_def uploadFilesToIPFS_def uploadJSONToIPFS_def fetch_def Let_def
      split: option.splits)

theorem token_read_at_each_call_witness:
  "noToken (token (startWorld None))
   \<and> fst (uploadFilesToIPFS acceptingServer (startWorld None) [sampleFile ''cert.pdf'' 100])
       = Inl missingToken
   \<and> fetch_log (snd (uploadFilesToIPFS acceptingServer (startWorld None)
        [sampleFile ''cert.pdf'' 100])) = []
   \<and> noToken (token (startWorld (Some [])))
   \<and> fst (uploadJSONToIPFS acceptingServer (startWorld (Some []))
        (JobDoc (sampleJobWith []) ''2026'' None)) = Inl missingToken
   \<and> fetch_log (snd (uploadJSONToIPFS acceptingServer (startWorld (Some []))
        (JobDoc (sampleJobWith []) ''2026'' None))) = []
   \<and> token (startWorld (Some ''tok'')) = Some ''tok'' \<and> ''tok'' \<noteq> []
   \<and> fetch_log (snd (uploadFilesToIPFS acceptingServer (startWorld (Some ''tok''))
        [sampleFile ''cert.pdf'' 100])) = [FilesUpload ''tok'' [sampleFile ''cert.pdf'' 100]]"
proof -
  have n: "noToken (token (startWorld None))" "noToken (token (startWorld (Some [])))"
    "token (startWorld (Some ''tok'')) = Some ''tok''" "''tok'' \<noteq> []"
    "fetch_log (startWorld None) = []" "fetch_log (startWorld (Some [])) = []"
    "fetch_log (startWorld (Some ''tok'')) = []"
    by (simp_all add: noToken_def startWorld_def)
  from n token_read_at_each_call [where w = "startWorld None" and srv = acceptingServer
      and files = "[sampleFile ''cert.pdf'' 100]"]
    token_read_at_each_call [where w = "startWorld (Some [])" and srv = acceptingServer
      and d = "JobDoc (sampleJobWith []) ''2026'' None"]
    token_read_at_each_call [where w = "startWorld (Some ''tok'')" and srv = acceptingServer
      and files = "[sampleFile ''cert.pdf'' 100]" and t = "''tok''"]
  show ?thesis by simp
qed

text \<open>
  Claim C4 as stated fails. With the token absent, two successive upload calls each raise
  the missing-token error anew; once the variable is set, the next call succeeds, so the
  value is looked up at each call; and a submission with an oversized certification ends
  in the validation error with the absent token never reported.
\<close>

theorem credential_resolved_once_counterexample:
  "fst (uploadFilesToIPFS acceptingServer (startWorld None) [sampleFile ''cert.pdf'' 100])
     = Inl missingToken
   \<and> fst (uploadFilesToIPFS acceptingServer
        (snd (uploadFilesToIPFS acceptingServer (startWorld None) [sampleFile ''cert.pdf'' 100]))
        [sampleFile ''cert.pdf'' 100])
     = Inl missingToken
   \<and> fst (uploadFilesToIPFS acceptingServer
        ((snd (uploadFilesToIPFS acceptingServer (startWorld None) [sampleFile ''cert.pdf'' 100]))
           \<lparr>token := Some ''tok''\<rparr>)
        [sampleFile ''cert.pdf'' 100])
     = Inr \<lparr>cid = Some ''bafy'', url = ''https://w3s.link/ipfs/bafy''\<rparr>
   \<and> attErr (fst (onSubmit acceptingServer ''2026'' freshPage (startWorld None)
        (sampleProfile [sampleFile ''big.pdf'' 6000000] [] [])))
     = Some ''Certification exceeds 5MB''
   \<and> alerts (fst (onSubmit acceptingServer ''2026'' freshPage (startWorld None)
        (sampleProfile [sampleFile ''big.pdf'' 6000000] [] []))) = []"
  by (simp add: run_defs sample_defs)

end
